theory Spec2Isabelle
  imports Complex_Main
begin

text \<open>
  A model of two parts of the scoutradioz repository.
  \<^item> The Express middleware of \<^verbatim>\<open>usefunctions.js\<close>: the \<^verbatim>\<open>authenticate\<close> closure that guards
    a route by access level, and the timestamp that the request logger prints.
  \<^item> The offline sync of the voyager client: the five download operations of
    \<^verbatim>\<open>DBOperations.ts\<close> over the tables that \<^verbatim>\<open>localDB.ts\<close> declares.

  The definitions come first, each next to what it models; the properties follow, with
  the concrete inputs on which they are evaluated.
\<close>

section \<open>JavaScript strings and numbers\<close>

text \<open>
  A JavaScript string is modelled as a \<^typ>\<open>string\<close>, one \<^typ>\<open>char\<close> per UTF-16 code
  unit; the model therefore covers the strings whose code units are below 256. Of the
  white space that \<^verbatim>\<open>parseInt\<close> and \<^verbatim>\<open>Number\<close> strip, these code units are TAB, LF,
  VT, FF, CR, SP and NBSP.

  A JavaScript number is \<open>NaN\<close>, an infinity, or a finite value. A finite value is kept
  as the exact rational the literal denotes: the rounding to a double is not modelled,
  and neither is the sign of zero. Both are invisible to \<^verbatim>\<open>isNaN\<close> and to the
  comparisons of the code below.
\<close>

datatype jsnum = NaN | PosInfinity | NegInfinity | Fin rat

definition isNaN :: "jsnum \<Rightarrow> bool" where
  "isNaN x = (x = NaN)"

definition is_ws :: "char \<Rightarrow> bool" where
  "is_ws c = ((of_char c :: nat) \<in> {9, 10, 11, 12, 13, 32, 160})"

definition digit_of :: "char \<Rightarrow> nat option" where
  "digit_of c =
     (let n = (of_char c :: nat) in
      if 48 \<le> n \<and> n \<le> 57 then Some (n - 48)
      else if 97 \<le> n \<and> n \<le> 122 then Some (n - 87)
      else if 65 \<le> n \<and> n \<le> 90 then Some (n - 55)
      else None)"

definition is_digit_in :: "nat \<Rightarrow> char \<Rightarrow> bool" where
  "is_digit_in R c = (case digit_of c of Some d \<Rightarrow> d < R | None \<Rightarrow> False)"

definition digits_value :: "nat \<Rightarrow> string \<Rightarrow> nat" where
  "digits_value R Z = foldl (\<lambda>acc c. acc * R + (case digit_of c of Some d \<Rightarrow> d | None \<Rightarrow> 0)) 0 Z"

text \<open>
  \<^verbatim>\<open>parseInt(string)\<close> with no radix (ECMAScript 19.2.5): leading white space is dropped,
  then an optional sign, then an optional \<^verbatim>\<open>0x\<close>/\<^verbatim>\<open>0X\<close> prefix that switches the radix
  to 16; the value is that of the longest prefix of digits, and \<open>NaN\<close> (here \<open>None\<close>)
  when that prefix is empty. Whatever follows the digits is ignored.
\<close>

definition parseInt :: "string \<Rightarrow> int option" where
  "parseInt inputString =
     (let S = dropWhile is_ws inputString;
          sign = (if take 1 S = ''-'' then - 1 else 1 :: int);
          S1 = (if take 1 S = ''+'' \<or> take 1 S = ''-'' then drop 1 S else S);
          hex = (take 2 S1 = ''0x'' \<or> take 2 S1 = ''0X'');
          R = (if hex then 16 else 10);
          S2 = (if hex then drop 2 S1 else S1);
          Z = takeWhile (is_digit_in R) S2
      in if Z = [] then None else Some (sign * int (digits_value R Z)))"

text \<open>
  \<^verbatim>\<open>Number(string)\<close> (ECMAScript StringToNumber): white space is trimmed at both ends;
  the empty string is 0; a \<^verbatim>\<open>0x\<close>, \<^verbatim>\<open>0o\<close> or \<^verbatim>\<open>0b\<close> literal is read in its radix
  (no sign allowed); otherwise the whole string must be \<^verbatim>\<open>Infinity\<close> or a decimal
  literal (digits, optional fraction, optional exponent) with an optional sign. Anything
  else is \<open>NaN\<close>.
\<close>

definition trim :: "string \<Rightarrow> string" where
  "trim s = rev (dropWhile is_ws (rev (dropWhile is_ws s)))"

definition radix_literal :: "nat \<Rightarrow> string \<Rightarrow> jsnum" where
  "radix_literal R ds =
     (if ds \<noteq> [] \<and> list_all (is_digit_in R) ds then Fin (of_nat (digits_value R ds)) else NaN)"

definition scale10 :: "nat \<Rightarrow> int \<Rightarrow> rat" where
  "scale10 m e = (if 0 \<le> e then of_nat m * 10 ^ nat e else of_nat m / 10 ^ nat (- e))"

definition exponent_part :: "string \<Rightarrow> int option" where
  "exponent_part s =
     (if s = [] then Some 0
      else if take 1 s = ''e'' \<or> take 1 s = ''E'' then
        (let r = drop 1 s;
             neg = (take 1 r = ''-'');
             ds = (if take 1 r = ''+'' \<or> take 1 r = ''-'' then drop 1 r else r)
         in if ds \<noteq> [] \<and> list_all (is_digit_in 10) ds
            then Some ((if neg then - 1 else 1) * int (digits_value 10 ds))
            else None)
      else None)"

definition unsigned_decimal :: "string \<Rightarrow> rat option" where
  "unsigned_decimal s =
     (let ip = takeWhile (is_digit_in 10) s;
          r1 = dropWhile (is_digit_in 10) s;
          dot = (take 1 r1 = ''.'');
          fp = (if dot then takeWhile (is_digit_in 10) (drop 1 r1) else []);
          r2 = (if dot then dropWhile (is_digit_in 10) (drop 1 r1) else r1)
      in if ip = [] \<and> fp = [] then None
         else (case exponent_part r2 of
                 None \<Rightarrow> None
               | Some e \<Rightarrow> Some (scale10 (digits_value 10 (ip @ fp)) (e - int (length fp)))))"

definition signed_decimal :: "string \<Rightarrow> jsnum" where
  "signed_decimal s =
     (let neg = (take 1 s = ''-'');
          u = (if take 1 s = ''+'' \<or> take 1 s = ''-'' then drop 1 s else s)
      in if u = ''Infinity'' then (if neg then NegInfinity else PosInfinity)
         else (case unsigned_decimal u of
                 None \<Rightarrow> NaN
               | Some v \<Rightarrow> Fin (if neg then - v else v)))"

definition Number :: "string \<Rightarrow> jsnum" where
  "Number s =
     (let t = trim s in
      if t = [] then Fin 0
      else if take 2 t = ''0x'' \<or> take 2 t = ''0X'' then radix_literal 16 (drop 2 t)
      else if take 2 t = ''0o'' \<or> take 2 t = ''0O'' then radix_literal 8 (drop 2 t)
      else if take 2 t = ''0b'' \<or> take 2 t = ''0B'' then radix_literal 2 (drop 2 t)
      else signed_decimal t)"

text \<open>\<^verbatim>\<open>s.substring(0, n)\<close>: the first \<open>n\<close> code units, or all of \<open>s\<close> when it is shorter.\<close>

definition substring0 :: "nat \<Rightarrow> string \<Rightarrow> string" where
  "substring0 n s = take n s"

text \<open>The decimal form of a non-negative integer, as string concatenation produces it.\<close>

function decimal :: "nat \<Rightarrow> string" where
  "decimal n = (if n < 10 then [char_of (48 + n)] else decimal (n div 10) @ [char_of (48 + n mod 10)])"
  by pat_completeness auto
termination
  by (relation "measure id") auto

declare decimal.simps [simp del]

definition int_to_string :: "int \<Rightarrow> string" where
  "int_to_string i = (if i < 0 then ''-'' @ decimal (nat (- i)) else decimal (nat i))"

section \<open>Errors\<close>

text \<open>
  Every \<^verbatim>\<open>throw\<close>, failed \<^verbatim>\<open>assert\<close> and rejected promise of the sources is a value of
  this type. The sources throw plain \<^verbatim>\<open>Error\<close> objects that differ in their message;
  the constructors carry the names the specification gives them:
  \<^item> \<open>AccessLevelNotANumber\<close>: \<^verbatim>\<open>"req.authenticate: Access level is not a number ..."\<close>;
  \<^item> \<open>TypeError\<close>: \<^verbatim>\<open>Object.defineProperty\<close> refusing to redefine a property;
  \<^item> \<open>MissingContextError\<close>: \<^verbatim>\<open>'event_key and org_key not set!'\<close> of \<^verbatim>\<open>getKeys\<close>;
  \<^item> \<open>FetchError\<close>: \<^verbatim>\<open>fetchJSON\<close> rejecting;
  \<^item> \<open>PrerequisiteMissingError\<close>: \<^verbatim>\<open>assert(event, 'Event not found in local db')\<close>;
  \<^item> \<open>InvalidEventKeyError\<close>: \<^verbatim>\<open>assert(!isNaN(year), ...)\<close>;
  \<^item> \<open>ConflictError\<close>, \<open>NotFoundError\<close>, \<open>DataError\<close>: the local store rejecting an
    operation (a key that exists already, a table outside the transaction, a row
    without its primary key).
\<close>

datatype error =
    AccessLevelNotANumber
  | TypeError
  | MissingContextError
  | FetchError
  | PrerequisiteMissingError
  | InvalidEventKeyError
  | ConflictError
  | NotFoundError
  | DataError

section \<open>The authenticate middleware\<close>

text \<open>
  \<^verbatim>\<open>functions.authenticate(req, res, next)\<close> builds the closure \<^verbatim>\<open>authenticate\<close> and
  attaches it to the request with \<^verbatim>\<open>Object.defineProperty\<close>. The request carries the
  signed-in user (or none), the method and the original URL; the response records the
  redirects issued on it. The access level handed to the closure is an environment
  variable (\<^verbatim>\<open>process.env.ACCESS_X\<close>): a string, or \<^verbatim>\<open>undefined\<close> when the variable is
  not set.
\<close>

record role_rec =
  access_level :: int

record user_rec =
  name :: string
  role :: role_rec

datatype prop_value = AuthenticateFn | OtherValue

record property_descriptor =
  pd_value :: prop_value
  writable :: bool
  enumerable :: bool
  configurable :: bool

record request =
  user :: "user_rec option"
  req_method :: string
  originalUrl :: string
  authenticate_slot :: "property_descriptor option"

record response =
  redirects :: "string list"

definition redirect :: "string \<Rightarrow> response \<Rightarrow> response" where
  "redirect url res = res\<lparr>redirects := redirects res @ [url]\<rparr>"

definition ToString :: "string option \<Rightarrow> string" where
  "ToString v = (case v of None \<Rightarrow> ''undefined'' | Some s \<Rightarrow> s)"

text \<open>
  The closure. It is an \<^verbatim>\<open>async\<close> function: the first component of the result is what
  its promise settles to (\<open>Inl\<close> a rejection, \<open>Inr\<close> the boolean), the second is the
  response after the call. The \<^verbatim>\<open>logger.info\<close> line has no effect on either.
\<close>

definition authenticate_closure ::
    "request \<Rightarrow> response \<Rightarrow> string option \<Rightarrow> (error + bool) \<times> response" where
  "authenticate_closure req res accessLevel =
     (case parseInt (ToString accessLevel) of
        None \<Rightarrow> (Inl AccessLevelNotANumber, res)
      | Some lvl \<Rightarrow>
          (case user req of
             Some u \<Rightarrow>
               if lvl \<le> access_level (role u) then (Inr True, res)
               else if req_method req = ''GET'' \<and> name u = ''default_user''
                 then (Inr False, redirect (''/user/login?redirectURL='' @ originalUrl req) res)
                 else (Inr False,
                       redirect ''/?alert=You are not authorized to access this page.&type=error'' res)
           | None \<Rightarrow> (Inr False, redirect (''/?redirectURL='' @ originalUrl req) res)))"

text \<open>
  \<^verbatim>\<open>Object.defineProperty(req, 'authenticate', {value: authenticate, writable: false})\<close>
  on an ordinary, extensible object. A new data property gets \<open>false\<close> for every
  attribute the descriptor leaves out. An existing property keeps its \<open>enumerable\<close> and
  \<open>configurable\<close>; when it is neither configurable nor writable the call throws, as the
  closure is a new function object and so never the value already there.
\<close>

definition defineProperty_authenticate :: "request \<Rightarrow> error + request" where
  "defineProperty_authenticate req =
     (case authenticate_slot req of
        None \<Rightarrow>
          Inr (req\<lparr>authenticate_slot :=
                 Some \<lparr>pd_value = AuthenticateFn, writable = False,
                       enumerable = False, configurable = False\<rparr>\<rparr>)
      | Some cur \<Rightarrow>
          if \<not> configurable cur \<and> \<not> writable cur then Inl TypeError
          else Inr (req\<lparr>authenticate_slot :=
                      Some (cur\<lparr>pd_value := AuthenticateFn, writable := False\<rparr>)\<rparr>))"

definition authenticate :: "request \<Rightarrow> error + request" where
  "authenticate req = defineProperty_authenticate req"

text \<open>
  A later assignment \<^verbatim>\<open>req.authenticate = v\<close>: it changes a writable property, creates
  a missing one, and leaves a non-writable one as it is.
\<close>

definition assign_authenticate :: "prop_value \<Rightarrow> request \<Rightarrow> request" where
  "assign_authenticate v req =
     (case authenticate_slot req of
        None \<Rightarrow>
          req\<lparr>authenticate_slot :=
                Some \<lparr>pd_value = v, writable = True, enumerable = True, configurable = True\<rparr>\<rparr>
      | Some cur \<Rightarrow>
          if writable cur then req\<lparr>authenticate_slot := Some (cur\<lparr>pd_value := v\<rparr>)\<rparr> else req)"

text \<open>
  What the specification calls a valid integer, read strictly: an optional sign
  followed by decimal digits and nothing else.
\<close>

definition valid_integer :: "string option \<Rightarrow> bool" where
  "valid_integer a =
     (case a of
        None \<Rightarrow> False
      | Some s \<Rightarrow>
          (let u = (if take 1 s = ''+'' \<or> take 1 s = ''-'' then drop 1 s else s)
           in u \<noteq> [] \<and> list_all (is_digit_in 10) u))"

section \<open>The request logger's timestamp\<close>

text \<open>
  \<^verbatim>\<open>functions.requestLogger\<close> and the older \<^verbatim>\<open>functions.logger\<close> format the request time
  with the same lines. The local-time components are the input, as the getters of a
  valid \<^verbatim>\<open>Date\<close> return them: \<open>getMonth\<close> counts from 0, the others are the calendar
  values.
\<close>

record date_parts =
  getFullYear :: int
  getMonth :: nat
  getDate :: nat
  getHours :: nat
  getMinutes :: nat
  getSeconds :: nat

fun join :: "string \<Rightarrow> string list \<Rightarrow> string" where
  "join sep [] = []"
| "join sep [x] = x"
| "join sep (x # y # ys) = x @ sep @ join sep (y # ys)"

definition formattedReqTime :: "date_parts \<Rightarrow> string" where
  "formattedReqTime d =
     (let month = decimal (getMonth d + 1);
          day = decimal (getDate d);
          year = getFullYear d;
          hours = getHours d;
          minutes = getMinutes d;
          seconds = getSeconds d;
          month' = (if length month < 2 then ''0'' @ month else month);
          day' = (if length day < 2 then ''0'' @ day else day)
      in join ''-'' [int_to_string year, month', day',
                     join '':'' [decimal hours, decimal minutes, decimal seconds]])"

text \<open>
  The fixed format \<^verbatim>\<open>YYYY-MM-DD-HH:MM:SS\<close>: nineteen characters, digits everywhere but
  at the separators.
\<close>

definition fixed_format :: "string \<Rightarrow> bool" where
  "fixed_format s =
     (length s = 19 \<and>
      list_all (\<lambda>i. is_digit_in 10 (s ! i)) [0, 1, 2, 3, 5, 6, 8, 9, 11, 12, 14, 15, 17, 18] \<and>
      s ! 4 = CHR ''-'' \<and> s ! 7 = CHR ''-'' \<and> s ! 10 = CHR ''-'' \<and>
      s ! 13 = CHR '':'' \<and> s ! 16 = CHR '':'')"

section \<open>The local store\<close>

text \<open>
  The local database is a Dexie database over IndexedDB. Dexie itself is a library
  outside the repository; this section models the part of its documented behaviour that
  the sync operations use.

  A stored row is a JavaScript object: a list of fields with their values. The tables
  are those that \<^verbatim>\<open>LocalDB\<close> declares (version 13 of the schema), with the first entry of a
  store declaration as the primary key and every entry marked \<^verbatim>\<open>&\<close> as a unique index.
\<close>

datatype jsval =
    JNull
  | JBool bool
  | JNum jsnum
  | JStr string
  | JDate int
  | JArr "jsval list"
  | JObj "(string \<times> jsval) list"

type_synonym row = "(string \<times> jsval) list"

datatype tbl =
    Lightusers | Lightmatches | User | Events | Layout
  | Matchscouting | Pitscouting | Teams | Orgs | Syncstatus

text \<open>
  Modelled from the spec: the declaration of the \<^verbatim>\<open>syncstatus\<close> table is not in the
  \<^verbatim>\<open>LocalDB\<close> of the sources. The specification gives it one row per (table, filter)
  pair, so its primary key is the compound \<^verbatim>\<open>[table+filter]\<close>.
\<close>

fun primary_key :: "tbl \<Rightarrow> string list" where
  "primary_key Lightusers = [''_id'']"
| "primary_key Lightmatches = [''key'']"
| "primary_key User = [''_id'']"
| "primary_key Events = [''_id'']"
| "primary_key Layout = [''_id'']"
| "primary_key Matchscouting = [''match_team_key'']"
| "primary_key Pitscouting = [''org_key'', ''event_key'', ''team_key'']"
| "primary_key Teams = [''_id'']"
| "primary_key Orgs = [''_id'']"
| "primary_key Syncstatus = [''table'', ''filter'']"

fun unique_indexes :: "tbl \<Rightarrow> string list list" where
  "unique_indexes Events = [[''key'']]"
| "unique_indexes Teams = [[''key'']]"
| "unique_indexes Orgs = [[''org_key'']]"
| "unique_indexes _ = []"

text \<open>
  The values IndexedDB accepts as keys: strings, numbers other than \<open>NaN\<close>, dates, and
  arrays of keys. The key of a row under a key path is the value of the field, or the
  array of the values of the fields of a compound path; a row with a field missing, or
  holding a value that is no key, has no key under that path.
\<close>

fun valid_key :: "jsval \<Rightarrow> bool" where
  "valid_key (JStr s) = True"
| "valid_key (JNum n) = (n \<noteq> NaN)"
| "valid_key (JDate t) = True"
| "valid_key (JArr vs) = list_all valid_key vs"
| "valid_key JNull = False"
| "valid_key (JBool b) = False"
| "valid_key (JObj fs) = False"

definition key_of :: "string list \<Rightarrow> row \<Rightarrow> jsval option" where
  "key_of path r =
     (case those (map (map_of r) path) of
        None \<Rightarrow> None
      | Some vs \<Rightarrow>
          if list_all valid_key vs
          then (case vs of [v] \<Rightarrow> Some v | _ \<Rightarrow> Some (JArr vs))
          else None)"

definition has_key :: "string list \<Rightarrow> jsval \<Rightarrow> row list \<Rightarrow> bool" where
  "has_key path k t = list_ex (\<lambda>x. key_of path x = Some k) t"

definition unique_conflict :: "tbl \<Rightarrow> row \<Rightarrow> row list \<Rightarrow> bool" where
  "unique_conflict T r t =
     list_ex (\<lambda>idx. case key_of idx r of None \<Rightarrow> False | Some k \<Rightarrow> has_key idx k t)
       (unique_indexes T)"

text \<open>
  \<^verbatim>\<open>add\<close> stores a new row and fails when its primary key, or its key under a unique
  index, is in the table already. \<^verbatim>\<open>put\<close> stores the row in place of the one with the
  same primary key, which it replaces as a whole, or as a new row when there is none.
  Both fail on a row without a primary key.
\<close>

definition add_row :: "tbl \<Rightarrow> row \<Rightarrow> row list \<Rightarrow> error + row list" where
  "add_row T r t =
     (case key_of (primary_key T) r of
        None \<Rightarrow> Inl DataError
      | Some k \<Rightarrow>
          if has_key (primary_key T) k t \<or> unique_conflict T r t then Inl ConflictError
          else Inr (t @ [r]))"

definition put_row :: "tbl \<Rightarrow> row \<Rightarrow> row list \<Rightarrow> error + row list" where
  "put_row T r t =
     (case key_of (primary_key T) r of
        None \<Rightarrow> Inl DataError
      | Some k \<Rightarrow>
          if unique_conflict T r (filter (\<lambda>x. key_of (primary_key T) x \<noteq> Some k) t)
          then Inl ConflictError
          else if has_key (primary_key T) k t
          then Inr (map (\<lambda>x. if key_of (primary_key T) x = Some k then r else x) t)
          else Inr (t @ [r]))"

text \<open>
  \<^verbatim>\<open>bulkAdd\<close> and \<^verbatim>\<open>bulkPut\<close> store the rows in order. The sync operations await them
  without catching, so the first row that fails rejects the transaction body.
\<close>

fun bulkAdd_rows :: "tbl \<Rightarrow> row list \<Rightarrow> row list \<Rightarrow> error + row list" where
  "bulkAdd_rows T [] t = Inr t"
| "bulkAdd_rows T (r # rs) t =
     (case add_row T r t of Inl e \<Rightarrow> Inl e | Inr t' \<Rightarrow> bulkAdd_rows T rs t')"

fun bulkPut_rows :: "tbl \<Rightarrow> row list \<Rightarrow> row list \<Rightarrow> error + row list" where
  "bulkPut_rows T [] t = Inr t"
| "bulkPut_rows T (r # rs) t =
     (case put_row T r t of Inl e \<Rightarrow> Inl e | Inr t' \<Rightarrow> bulkPut_rows T rs t')"

text \<open>\<^verbatim>\<open>where({f: v, ...})\<close> selects the rows whose fields have the given values.\<close>

definition matches :: "(string \<times> jsval) list \<Rightarrow> row \<Rightarrow> bool" where
  "matches crit x = list_all (\<lambda>(f, v). map_of x f = Some v) crit"

text \<open>
  \<^verbatim>\<open>anyOf(keys)\<close> takes an array of keys, or a single key. An argument that is
  \<^verbatim>\<open>undefined\<close>, or that holds a value that is no key, makes the query fail when it
  runs; the query reaches its table first, so a table outside the transaction is what
  it fails on before that.
\<close>

definition anyOf_keys :: "jsval option \<Rightarrow> jsval list option" where
  "anyOf_keys a =
     (case a of
        None \<Rightarrow> None
      | Some (JArr ks) \<Rightarrow> if list_all valid_key ks then Some ks else None
      | Some v \<Rightarrow> if valid_key v then Some [v] else None)"

subsection \<open>Transactions\<close>

text \<open>
  The state of the store gives every table its rows. \<^verbatim>\<open>db.transaction(mode, tables, body)\<close>
  opens one IndexedDB transaction whose scope is the listed tables, and every table
  operation of the body runs on that transaction. IndexedDB hands out an object store
  only when it is in the scope of the transaction (\<^verbatim>\<open>IDBTransaction.objectStore\<close> throws
  \<^verbatim>\<open>NotFoundError\<close> otherwise), so an operation on a table that the transaction does not
  list is rejected. A step of a body takes the scope and the store and returns its result
  with the store after it, or the error it raises.
\<close>

type_synonym localdb = "tbl \<Rightarrow> row list"

type_synonym 'a tx = "tbl list \<Rightarrow> localdb \<Rightarrow> error + ('a \<times> localdb)"

definition bindT :: "'a tx \<Rightarrow> ('a \<Rightarrow> 'b tx) \<Rightarrow> 'b tx" where
  "bindT m f scope db = (case m scope db of Inl e \<Rightarrow> Inl e | Inr (a, db') \<Rightarrow> f a scope db')"

definition on_table :: "tbl \<Rightarrow> (row list \<Rightarrow> error + ('a \<times> row list)) \<Rightarrow> 'a tx" where
  "on_table T f scope db =
     (if T \<in> set scope
      then (case f (db T) of Inl e \<Rightarrow> Inl e | Inr (a, t') \<Rightarrow> Inr (a, db(T := t')))
      else Inl NotFoundError)"

definition stored :: "error + row list \<Rightarrow> error + (unit \<times> row list)" where
  "stored res = (case res of Inl e \<Rightarrow> Inl e | Inr t' \<Rightarrow> Inr ((), t'))"

definition table_add :: "tbl \<Rightarrow> row \<Rightarrow> unit tx" where
  "table_add T r = on_table T (\<lambda>t. stored (add_row T r t))"

definition table_put :: "tbl \<Rightarrow> row \<Rightarrow> unit tx" where
  "table_put T r = on_table T (\<lambda>t. stored (put_row T r t))"

definition table_bulkAdd :: "tbl \<Rightarrow> row list \<Rightarrow> unit tx" where
  "table_bulkAdd T rs = on_table T (\<lambda>t. stored (bulkAdd_rows T rs t))"

definition table_bulkPut :: "tbl \<Rightarrow> row list \<Rightarrow> unit tx" where
  "table_bulkPut T rs = on_table T (\<lambda>t. stored (bulkPut_rows T rs t))"

definition where_first :: "tbl \<Rightarrow> (string \<times> jsval) list \<Rightarrow> row option tx" where
  "where_first T crit = on_table T (\<lambda>t. Inr (find (matches crit) t, t))"

definition where_delete :: "tbl \<Rightarrow> (string \<times> jsval) list \<Rightarrow> nat tx" where
  "where_delete T crit =
     on_table T (\<lambda>t. Inr (length (filter (matches crit) t), filter (\<lambda>x. \<not> matches crit x) t))"

definition where_anyOf_delete :: "tbl \<Rightarrow> string \<Rightarrow> jsval option \<Rightarrow> nat tx" where
  "where_anyOf_delete T f a =
     on_table T (\<lambda>t.
       case anyOf_keys a of
         None \<Rightarrow> Inl DataError
       | Some ks \<Rightarrow>
           (let hit = (\<lambda>x. case key_of [f] x of None \<Rightarrow> False | Some k \<Rightarrow> k \<in> set ks)
            in Inr (length (filter hit t), filter (\<lambda>x. \<not> hit x) t)))"

text \<open>
  \<^verbatim>\<open>db.transaction('rw', tables, body)\<close>: the writes of the body commit together when it
  returns; when it raises, the store is left as it was and the error goes to the
  caller.
\<close>

definition transaction :: "tbl list \<Rightarrow> unit tx \<Rightarrow> localdb \<Rightarrow> error option \<times> localdb" where
  "transaction scope body db =
     (case body scope db of Inl e \<Rightarrow> (Some e, db) | Inr (u, db') \<Rightarrow> (None, db'))"

section \<open>The sync operations\<close>

text \<open>
  Each operation of \<^verbatim>\<open>DBOperations.ts\<close> reads the page's keys, fetches, and then runs one
  transaction. Its result is the error it rejects with, if any, and the store after it.
  The calls of the logger, and the \<^verbatim>\<open>setFuncName\<close> decorator that only sets the logger's
  function name around a call, have no effect on either and are left out.

  What lies outside the sources is a parameter:
  \<^item> \<^verbatim>\<open>fetchJSON\<close> (of \<^verbatim>\<open>./utils\<close>): the \<open>api\<close> gives, for a URL, the parsed body, or
    \<open>None\<close> when the helper rejects (a status that is not a success, a body that is no
    JSON); the operation then fails with \<open>FetchError\<close>;
  \<^item> \<^verbatim>\<open>new Date()\<close>: the clock readings \<open>now\<close>, in milliseconds;
  \<^item> the conversion of a number to text inside a template literal: \<open>numText\<close>.
\<close>

record page_data =
  page_event_key :: "string option"
  page_org_key :: "string option"

record api =
  fetch_object :: "string \<Rightarrow> row option"
  fetch_array :: "string \<Rightarrow> row list option"

text \<open>
  \<^verbatim>\<open>getKeys\<close>: both keys must be truthy, that is, present and not the empty string.
\<close>

definition getKeys :: "page_data \<Rightarrow> error + (string \<times> string)" where
  "getKeys d =
     (case (page_event_key d, page_org_key d) of
        (Some event_key, Some org_key) \<Rightarrow>
          if event_key = [] \<or> org_key = [] then Inl MissingContextError
          else Inr (event_key, org_key)
      | _ \<Rightarrow> Inl MissingContextError)"

text \<open>
  Modelled from the spec: the helper \<^verbatim>\<open>assert\<close> (of \<^verbatim>\<open>./assert\<close>) is not among the sources.
  A condition that does not hold fails the operation with the error the specification
  names for it; one that holds has no effect. \<open>assertT\<close> is the helper inside a
  transaction body.
\<close>

definition assert :: "bool \<Rightarrow> error \<Rightarrow> error + unit" where
  "assert cond e = (if cond then Inr () else Inl e)"

definition assertT :: "bool \<Rightarrow> error \<Rightarrow> unit tx" where
  "assertT cond e scope db = (case assert cond e of Inl e' \<Rightarrow> Inl e' | Inr u \<Rightarrow> Inr (u, db))"

definition EventOperations_download :: "api \<Rightarrow> page_data \<Rightarrow> localdb \<Rightarrow> error option \<times> localdb" where
  "EventOperations_download srv page db =
     (case getKeys page of
        Inl e \<Rightarrow> (Some e, db)
      | Inr (event_key, org_key) \<Rightarrow>
          (case fetch_object srv (''/api/'' @ event_key) of
             None \<Rightarrow> (Some FetchError, db)
           | Some event \<Rightarrow> transaction [Events] (table_add Events event) db))"

text \<open>
  The transaction of the Team operation lists \<^verbatim>\<open>db.events\<close> only; the body reads
  \<^verbatim>\<open>db.events\<close> and then deletes from and adds to \<^verbatim>\<open>db.teams\<close>.
\<close>

definition TeamOperations_download :: "api \<Rightarrow> page_data \<Rightarrow> localdb \<Rightarrow> error option \<times> localdb" where
  "TeamOperations_download srv page db =
     (case getKeys page of
        Inl e \<Rightarrow> (Some e, db)
      | Inr (event_key, org_key) \<Rightarrow>
          (case fetch_array srv (''/api/'' @ event_key @ ''/teams'') of
             None \<Rightarrow> (Some FetchError, db)
           | Some teams \<Rightarrow>
               transaction [Events]
                 (bindT (where_first Events [(''key'', JStr event_key)]) (\<lambda>event.
                  bindT (assertT (event \<noteq> None) PrerequisiteMissingError) (\<lambda>u.
                  bindT (where_anyOf_delete Teams ''key''
                           (Option.bind event (\<lambda>ev. map_of ev ''team_keys''))) (\<lambda>numDeleted.
                  table_bulkAdd Teams teams))))
                 db))"

definition MatchOperations_download ::
    "api \<Rightarrow> page_data \<Rightarrow> int \<Rightarrow> localdb \<Rightarrow> error option \<times> localdb" where
  "MatchOperations_download srv page now db =
     (case getKeys page of
        Inl e \<Rightarrow> (Some e, db)
      | Inr (event_key, org_key) \<Rightarrow>
          (case fetch_array srv (''/api/'' @ event_key @ ''/matches'') of
             None \<Rightarrow> (Some FetchError, db)
           | Some matches_fetched \<Rightarrow>
               transaction [Lightmatches, Syncstatus]
                 (bindT (where_delete Lightmatches [(''event_key'', JStr event_key)])
                    (\<lambda>numDeleted.
                  bindT (table_bulkAdd Lightmatches matches_fetched) (\<lambda>u.
                  table_put Syncstatus
                    [(''table'', JStr ''lightmatches''),
                     (''filter'', JStr (''event='' @ event_key)),
                     (''time'', JDate now)])))
                 db))"

definition MatchScoutingOperations_download ::
    "api \<Rightarrow> page_data \<Rightarrow> int \<Rightarrow> localdb \<Rightarrow> error option \<times> localdb" where
  "MatchScoutingOperations_download srv page now db =
     (case getKeys page of
        Inl e \<Rightarrow> (Some e, db)
      | Inr (event_key, org_key) \<Rightarrow>
          (case fetch_array srv (''/api/orgs/'' @ org_key @ ''/'' @ event_key @ ''/assignments/match'') of
             None \<Rightarrow> (Some FetchError, db)
           | Some matchScouting \<Rightarrow>
               transaction [Matchscouting, Syncstatus]
                 (bindT (table_bulkPut Matchscouting matchScouting) (\<lambda>u.
                  table_put Syncstatus
                    [(''table'', JStr ''orgs''),
                     (''filter'', JStr (''org='' @ org_key @ '',event='' @ event_key)),
                     (''time'', JDate now)]))
                 db))"

definition FormLayoutOperations_download ::
    "(jsnum \<Rightarrow> string) \<Rightarrow> api \<Rightarrow> page_data \<Rightarrow> int \<Rightarrow> int \<Rightarrow> localdb \<Rightarrow> error option \<times> localdb" where
  "FormLayoutOperations_download numText srv page now1 now2 db =
     (case getKeys page of
        Inl e \<Rightarrow> (Some e, db)
      | Inr (event_key, org_key) \<Rightarrow>
          (let year = Number (substring0 4 event_key) in
           case assert (\<not> isNaN year) InvalidEventKeyError of
             Inl e \<Rightarrow> (Some e, db)
           | Inr u \<Rightarrow>
             (case fetch_array srv
                     (''/api/orgs/'' @ org_key @ ''/'' @ substring0 4 event_key @ ''/layout/match'') of
                None \<Rightarrow> (Some FetchError, db)
              | Some matchFormData \<Rightarrow>
                  (case fetch_array srv
                          (''/api/orgs/'' @ org_key @ ''/'' @ substring0 4 event_key @ ''/layout/pit'') of
                     None \<Rightarrow> (Some FetchError, db)
                   | Some pitFormData \<Rightarrow>
                       transaction [Layout, Syncstatus]
                         (bindT (where_delete Layout
                                   [(''org_key'', JStr org_key), (''year'', JNum year),
                                    (''form_type'', JStr ''pitscouting'')]) (\<lambda>pitDeleteCount.
                          bindT (where_delete Layout
                                   [(''org_key'', JStr org_key), (''year'', JNum year),
                                    (''form_type'', JStr ''matchscouting'')]) (\<lambda>matchDeleteCount.
                          bindT (table_bulkPut Layout pitFormData) (\<lambda>u.
                          bindT (table_bulkPut Layout matchFormData) (\<lambda>u.
                          table_bulkPut Syncstatus
                            [[(''table'', JStr ''layout''),
                              (''filter'', JStr (''org='' @ org_key @ '',year='' @ numText year
                                                  @ '',type=matchscouting'')),
                              (''time'', JDate now1)],
                             [(''table'', JStr ''layout''),
                              (''filter'', JStr (''org='' @ org_key @ '',year='' @ numText year
                                                  @ '',type=pitscouting'')),
                              (''time'', JDate now2)]])))))
                         db))))"

section \<open>Observations on the store\<close>

text \<open>
  IndexedDB keeps the primary keys of a table unique; \<open>unique_keys\<close> says so of a list of
  rows. \<open>status_rows\<close> selects the sync-status rows of one (table, filter) pair.
  \<open>latest\<close> is what a row becomes when the fetched rows are put over a table: the last
  fetched row with its primary key, or the row itself when there is none.
\<close>

definition unique_keys :: "tbl \<Rightarrow> row list \<Rightarrow> bool" where
  "unique_keys T t =
     (list_all (\<lambda>x. key_of (primary_key T) x \<noteq> None) t \<and>
      distinct (map (key_of (primary_key T)) t))"

definition status_rows :: "string \<Rightarrow> string \<Rightarrow> localdb \<Rightarrow> row list" where
  "status_rows tab flt db =
     filter (matches [(''table'', JStr tab), (''filter'', JStr flt)]) (db Syncstatus)"

definition latest :: "tbl \<Rightarrow> row list \<Rightarrow> row \<Rightarrow> row" where
  "latest T fetched x =
     (case find (\<lambda>r. key_of (primary_key T) r = key_of (primary_key T) x) (rev fetched) of
        None \<Rightarrow> x
      | Some r \<Rightarrow> r)"

section \<open>Example inputs\<close>

text \<open>The concrete requests, dates, pages, stores and servers the closed theorems evaluate.\<close>

definition req_anon :: request where
  "req_anon = \<lparr>user = None, req_method = ''GET'', originalUrl = ''/admin'', authenticate_slot = None\<rparr>"

definition req_scouter :: request where
  "req_scouter = \<lparr>user = Some \<lparr>name = ''pat'', role = \<lparr>access_level = 1\<rparr>\<rparr>,
                   req_method = ''GET'', originalUrl = ''/admin'', authenticate_slot = None\<rparr>"

definition res_empty :: response where
  "res_empty = \<lparr>redirects = []\<rparr>"

definition morning :: date_parts where
  "morning = \<lparr>getFullYear = 2024, getMonth = 2, getDate = 5,
              getHours = 9, getMinutes = 5, getSeconds = 3\<rparr>"

definition page_2024test :: page_data where
  "page_2024test = \<lparr>page_event_key = Some ''2024test'', page_org_key = Some ''demo''\<rparr>"

definition srv_down :: api where
  "srv_down = \<lparr>fetch_object = (\<lambda>url. None), fetch_array = (\<lambda>url. None)\<rparr>"

definition db_empty :: localdb where
  "db_empty = (\<lambda>T. [])"

definition team_frc1_old :: row where
  "team_frc1_old = [(''_id'', JStr ''t1''), (''key'', JStr ''frc1''), (''nickname'', JStr ''Old name'')]"

definition team_frc1_new :: row where
  "team_frc1_new = [(''_id'', JStr ''t1''), (''key'', JStr ''frc1''), (''nickname'', JStr ''New name'')]"

definition team_frc2 :: row where
  "team_frc2 = [(''_id'', JStr ''t2''), (''key'', JStr ''frc2''), (''nickname'', JStr ''Two'')]"

definition team_frc3 :: row where
  "team_frc3 = [(''_id'', JStr ''t3''), (''key'', JStr ''frc3''), (''nickname'', JStr ''Three'')]"

definition event_2024test :: row where
  "event_2024test =
     [(''_id'', JStr ''e1''), (''key'', JStr ''2024test''), (''year'', JNum (Fin 2024)),
      (''team_keys'', JArr [JStr ''frc1'', JStr ''frc2''])]"

definition db_cached :: localdb where
  "db_cached = (\<lambda>T. [])(Events := [event_2024test], Teams := [team_frc1_old, team_frc2])"

definition srv_teams :: api where
  "srv_teams = \<lparr>fetch_object = (\<lambda>url. None),
                 fetch_array = (\<lambda>url. if url = ''/api/2024test/teams''
                                        then Some [team_frc1_new, team_frc3] else None)\<rparr>"

text \<open>The text of a number, right for the integral values the examples print.\<close>

definition numText_integral :: "jsnum \<Rightarrow> string" where
  "numText_integral n =
     (case n of
        Fin r \<Rightarrow> int_to_string (floor r)
      | NaN \<Rightarrow> ''NaN''
      | PosInfinity \<Rightarrow> ''Infinity''
      | NegInfinity \<Rightarrow> ''-Infinity'')"

definition match_qm1 :: row where
  "match_qm1 = [(''key'', JStr ''2024test_qm1''), (''event_key'', JStr ''2024test''),
                (''comp_level'', JStr ''qm''), (''match_number'', JNum (Fin 1))]"

definition srv_matches :: api where
  "srv_matches = \<lparr>fetch_object = (\<lambda>url. None),
                   fetch_array = (\<lambda>url. if url = ''/api/2024test/matches''
                                          then Some [match_qm1] else None)\<rparr>"

definition status_lightmatches :: "int \<Rightarrow> row" where
  "status_lightmatches t = [(''table'', JStr ''lightmatches''), (''filter'', JStr ''event=2024test''),
                            (''time'', JDate t)]"

definition ms_local :: row where
  "ms_local = [(''match_team_key'', JStr ''2024test_qm1_frc1''), (''org_key'', JStr ''demo''),
               (''event_key'', JStr ''2024test''), (''team_key'', JStr ''frc1''),
               (''data'', JObj [(''notes'', JStr ''fast robot'')])]"

definition ms_fetched :: row where
  "ms_fetched = [(''match_team_key'', JStr ''2024test_qm1_frc1''), (''org_key'', JStr ''demo''),
                 (''event_key'', JStr ''2024test''), (''team_key'', JStr ''frc1''),
                 (''assigned_scorer'', JObj [(''id'', JStr ''7''), (''name'', JStr ''Pat'')])]"

definition db_scouted :: localdb where
  "db_scouted = (\<lambda>T. [])(Matchscouting := [ms_local])"

definition srv_assignments :: api where
  "srv_assignments = \<lparr>fetch_object = (\<lambda>url. None),
                       fetch_array = (\<lambda>url. if url = ''/api/orgs/demo/2024test/assignments/match''
                                              then Some [ms_fetched] else None)\<rparr>"






section \<open>Properties of the middleware\<close>

subsection \<open>Parsing the access level\<close>

lemma is_digit_not_ws: "is_digit_in 10 c \<Longrightarrow> \<not> is_ws c"
  by (auto simp: is_digit_in_def digit_of_def is_ws_def Let_def split: if_splits option.splits)

lemma is_digit_not_sign:
  "is_digit_in 10 c \<Longrightarrow> c \<noteq> CHR ''+'' \<and> c \<noteq> CHR ''-'' \<and> c \<noteq> CHR ''x'' \<and> c \<noteq> CHR ''X''"
  by (auto simp: is_digit_in_def digit_of_def Let_def split: if_splits option.splits)

lemma ws_not_sign: "\<not> is_ws CHR ''+''" "\<not> is_ws CHR ''-''"
  by (simp_all add: is_ws_def)

lemma parseInt_digits:
  assumes "u \<noteq> []" "list_all (is_digit_in 10) u"
  shows "parseInt u \<noteq> None" "parseInt (CHR ''+'' # u) \<noteq> None" "parseInt (CHR ''-'' # u) \<noteq> None"
proof -
  obtain c cs where u: "u = c # cs" using assms(1) by (cases u) auto
  have c: "is_digit_in 10 c" and cs: "list_all (is_digit_in 10) cs" using assms(2) u by auto
  have nohex: "take 2 u \<noteq> ''0x''" "take 2 u \<noteq> ''0X''"
    using cs is_digit_not_sign u by (cases cs; auto)+
  have tw: "takeWhile (is_digit_in 10) u \<noteq> []" using c u by simp
  show "parseInt u \<noteq> None"
    using nohex tw c is_digit_not_ws[OF c] is_digit_not_sign[OF c] u
    by (auto simp: parseInt_def Let_def)
  show "parseInt (CHR ''+'' # u) \<noteq> None"
    using nohex tw c u ws_not_sign
    by (auto simp: parseInt_def Let_def)
  show "parseInt (CHR ''-'' # u) \<noteq> None"
    using nohex tw c u ws_not_sign
    by (auto simp: parseInt_def Let_def)
qed

lemma valid_integer_parses: "valid_integer a \<Longrightarrow> parseInt (ToString a) \<noteq> None"
proof (cases a)
  case None
  then show "valid_integer a \<Longrightarrow> ?thesis" by (simp add: valid_integer_def)
next
  case (Some s)
  assume v: "valid_integer a"
  show ?thesis
  proof (cases "take 1 s = ''+'' \<or> take 1 s = ''-''")
    case True
    then obtain u where "s = CHR ''+'' # u \<or> s = CHR ''-'' # u" by (cases s) auto
    moreover have "u \<noteq> [] \<and> list_all (is_digit_in 10) u"
      if "s = CHR ''+'' # u \<or> s = CHR ''-'' # u" for u
      using v Some that by (auto simp: valid_integer_def Let_def)
    ultimately show ?thesis using parseInt_digits(2,3)[of u] Some by (auto simp: ToString_def)
  next
    case False
    then have "s \<noteq> [] \<and> list_all (is_digit_in 10) s"
      using v Some by (auto simp: valid_integer_def Let_def)
    then show ?thesis using parseInt_digits(1)[of s] Some by (auto simp: ToString_def)
  qed
qed

lemma parseInt_examples:
  "parseInt ''undefined'' = None" "parseInt ''12abc'' = Some 12" "parseInt ''1'' = Some 1"
  "parseInt ''2'' = Some 2"
  by (simp_all add: parseInt_def is_ws_def is_digit_in_def digit_of_def digits_value_def)

subsection \<open>When the closure throws\<close>

text \<open>
  Claim C8, as the code has it. The closure throws exactly when \<^verbatim>\<open>parseInt\<close> of the
  access level is \<open>NaN\<close>: it then rejects with the access-level error and issues no
  redirect. Whenever \<^verbatim>\<open>parseInt\<close> yields a number the closure resolves to a boolean; this
  is so for every valid integer.
\<close>

theorem authenticate_throws_iff_NaN:
  "(parseInt (ToString a) = None \<longrightarrow>
      authenticate_closure req res a = (Inl AccessLevelNotANumber, res)) \<and>
   (parseInt (ToString a) \<noteq> None \<longrightarrow>
      (\<exists>b res'. authenticate_closure req res a = (Inr b, res'))) \<and>
   (valid_integer a \<longrightarrow> parseInt (ToString a) \<noteq> None)"
  using valid_integer_parses[of a]
  by (auto simp: authenticate_closure_def split: option.splits)

text \<open>
  The theorem at an unset variable, which throws, and at the level \<^verbatim>\<open>"2"\<close>, which does
  not.
\<close>

theorem authenticate_throws_iff_NaN_witness:
  "parseInt (ToString None) = None \<and>
   authenticate_closure req_anon res_empty None = (Inl AccessLevelNotANumber, res_empty) \<and>
   valid_integer (Some ''2'') \<and> parseInt (ToString (Some ''2'')) \<noteq> None \<and>
   (\<exists>b res'. authenticate_closure req_scouter res_empty (Some ''2'') = (Inr b, res'))"
  using authenticate_throws_iff_NaN [of None req_anon res_empty]
    authenticate_throws_iff_NaN [of "Some ''2''" req_scouter res_empty]
  by (simp add: ToString_def parseInt_examples valid_integer_def is_digit_in_def digit_of_def)

text \<open>
  Claim C8 as stated fails: \<^verbatim>\<open>"12abc"\<close> is no valid integer, yet \<^verbatim>\<open>parseInt\<close> reads 12
  from it and the closure redirects and resolves to \<open>false\<close> instead of throwing.
\<close>

theorem authenticate_accepts_trailing_text:
  "\<not> valid_integer (Some ''12abc'') \<and>
   authenticate_closure req_anon res_empty (Some ''12abc'') =
     (Inr False, \<lparr>redirects = [''/?redirectURL=/admin'']\<rparr>)"
  by (simp add: valid_integer_def is_digit_in_def digit_of_def authenticate_closure_def
      ToString_def parseInt_examples req_anon_def res_empty_def redirect_def)

subsection \<open>What the closure resolves to\<close>

text \<open>
  Claim C10. When \<^verbatim>\<open>parseInt\<close> of the access level is the number \<open>n\<close>: with a signed-in
  user whose access level is at least \<open>n\<close> the closure resolves to \<open>true\<close> and leaves the
  response alone; in every other case it adds exactly one redirect and resolves to
  \<open>false\<close>. The middleware attaches the closure to a request that has no such property,
  and the property it attaches is not writable: a later assignment changes nothing.
\<close>

theorem authenticate_resolves:
  assumes "parseInt (ToString accessLevel) = Some n"
  shows "((\<exists>u. user req = Some u \<and> n \<le> access_level (role u)) \<longrightarrow>
            authenticate_closure req res accessLevel = (Inr True, res)) \<and>
         (\<not> (\<exists>u. user req = Some u \<and> n \<le> access_level (role u)) \<longrightarrow>
            (\<exists>url. authenticate_closure req res accessLevel =
                      (Inr False, res\<lparr>redirects := redirects res @ [url]\<rparr>))) \<and>
         (authenticate_slot req = None \<longrightarrow> (\<exists>req'. authenticate req = Inr req')) \<and>
         (\<forall>req'. authenticate req = Inr req' \<longrightarrow>
            (\<exists>p. authenticate_slot req' = Some p \<and> pd_value p = AuthenticateFn \<and> \<not> writable p) \<and>
            (\<forall>v. assign_authenticate v req' = req'))"
  using assms
  by (auto simp: authenticate_closure_def redirect_def authenticate_def
      defineProperty_authenticate_def assign_authenticate_def split: option.splits if_splits)

text \<open>
  The theorem for a user of level 1: the required level \<^verbatim>\<open>"1"\<close> is granted, \<^verbatim>\<open>"2"\<close> is
  answered with one redirect, and the attached property resists assignment.
\<close>

theorem authenticate_resolves_witness:
  "parseInt (ToString (Some ''1'')) = Some 1 \<and>
   authenticate_closure req_scouter res_empty (Some ''1'') = (Inr True, res_empty) \<and>
   parseInt (ToString (Some ''2'')) = Some 2 \<and>
   (\<exists>url. authenticate_closure req_scouter res_empty (Some ''2'') =
             (Inr False, res_empty\<lparr>redirects := redirects res_empty @ [url]\<rparr>)) \<and>
   (\<exists>req'. authenticate req_scouter = Inr req' \<and>
      (\<exists>p. authenticate_slot req' = Some p \<and> pd_value p = AuthenticateFn \<and> \<not> writable p) \<and>
      assign_authenticate OtherValue req' = req')"
proof -
  have p1: "parseInt (ToString (Some ''1'')) = Some 1"
    and p2: "parseInt (ToString (Some ''2'')) = Some 2"
    by (simp_all add: ToString_def parseInt_examples)
  have a: "\<exists>u. user req_scouter = Some u \<and> 1 \<le> access_level (role u)"
    by (simp add: req_scouter_def)
  have b: "\<not> (\<exists>u. user req_scouter = Some u \<and> 2 \<le> access_level (role u))"
    by (simp add: req_scouter_def)
  have c: "authenticate_slot req_scouter = None"
    by (simp add: req_scouter_def)
  show ?thesis
    using authenticate_resolves [OF p1, of req_scouter res_empty]
      authenticate_resolves [OF p2, of req_scouter res_empty] p1 p2 a b c
    by blast
qed

subsection \<open>The timestamp of the request logger\<close>

text \<open>
  Claim C9 at 5 March 2024, 09:05:03. The month and the day are padded to two digits,
  the hours, minutes and seconds are not: the text is \<^verbatim>\<open>2024-03-05-9:5:3\<close>, which is not
  of the form \<^verbatim>\<open>YYYY-MM-DD-HH:MM:SS\<close>.
\<close>

theorem formattedReqTime_unpadded_time:
  "formattedReqTime morning = ''2024-03-05-9:5:3'' \<and> \<not> fixed_format (formattedReqTime morning)"
proof -
  have "formattedReqTime morning = ''2024-03-05-9:5:3''"
    unfolding morning_def by code_simp
  then show ?thesis by (simp add: fixed_format_def)
qed

section \<open>Properties of the sync operations\<close>

lemma getKeys_2024test: "getKeys page_2024test = Inr (''2024test'', ''demo'')"
  by (simp add: getKeys_def page_2024test_def)

subsection \<open>A failed fetch\<close>

text \<open>
  Claim C1. With the page's keys set, each of the five operations whose fetch is
  rejected fails with that error and returns the store it was given: every table,
  the sync status among them, is as before. The FormLayout operation fetches twice and
  stops at either failure; with an event key that has no year it has stopped before.
\<close>

theorem failed_fetch_leaves_store_unchanged:
  assumes "getKeys page = Inr (ek, ok)"
  shows "(fetch_object srv (''/api/'' @ ek) = None \<longrightarrow>
           EventOperations_download srv page db = (Some FetchError, db)) \<and>
         (fetch_array srv (''/api/'' @ ek @ ''/teams'') = None \<longrightarrow>
           TeamOperations_download srv page db = (Some FetchError, db)) \<and>
         (fetch_array srv (''/api/'' @ ek @ ''/matches'') = None \<longrightarrow>
           MatchOperations_download srv page now db = (Some FetchError, db)) \<and>
         (fetch_array srv (''/api/orgs/'' @ ok @ ''/'' @ ek @ ''/assignments/match'') = None \<longrightarrow>
           MatchScoutingOperations_download srv page now db = (Some FetchError, db)) \<and>
         (fetch_array srv (''/api/orgs/'' @ ok @ ''/'' @ substring0 4 ek @ ''/layout/match'') = None \<or>
          fetch_array srv (''/api/orgs/'' @ ok @ ''/'' @ substring0 4 ek @ ''/layout/pit'') = None \<longrightarrow>
           FormLayoutOperations_download numText srv page now now' db =
             (Some (if isNaN (Number (substring0 4 ek)) then InvalidEventKeyError else FetchError), db))"
  using assms
  by (auto simp: EventOperations_download_def TeamOperations_download_def
      MatchOperations_download_def MatchScoutingOperations_download_def
      FormLayoutOperations_download_def assert_def Let_def split: option.splits)

text \<open>The theorem on a store that holds an event and two teams, with the server down.\<close>

theorem failed_fetch_leaves_store_unchanged_witness:
  "getKeys page_2024test = Inr (''2024test'', ''demo'') \<and>
   EventOperations_download srv_down page_2024test db_cached = (Some FetchError, db_cached) \<and>
   TeamOperations_download srv_down page_2024test db_cached = (Some FetchError, db_cached) \<and>
   MatchOperations_download srv_down page_2024test 0 db_cached = (Some FetchError, db_cached) \<and>
   MatchScoutingOperations_download srv_down page_2024test 0 db_cached = (Some FetchError, db_cached) \<and>
   FormLayoutOperations_download numText_integral srv_down page_2024test 0 0 db_cached =
     (Some FetchError, db_cached)"
proof -
  have y: "\<not> isNaN (Number (substring0 4 ''2024test''))"
    by (simp add: substring0_def isNaN_def Number_def trim_def is_ws_def signed_decimal_def
        unsigned_decimal_def is_digit_in_def digit_of_def exponent_part_def)
  show ?thesis
    using failed_fetch_leaves_store_unchanged
            [OF getKeys_2024test, of srv_down db_cached 0 numText_integral 0] y
    by (simp add: getKeys_2024test srv_down_def)
qed

subsection \<open>The Team operation\<close>

text \<open>
  The transaction of the Team operation, whatever it is given: it fails, for want of
  the event, or because \<^verbatim>\<open>db.teams\<close> is not among its tables.
\<close>

lemma team_transaction:
  "transaction [Events]
     (bindT (where_first Events crit) (\<lambda>event.
      bindT (assertT (event \<noteq> None) PrerequisiteMissingError) (\<lambda>u.
      bindT (where_anyOf_delete Teams f (Option.bind event g)) (\<lambda>numDeleted.
      table_bulkAdd Teams teams))))
     db =
   (Some (case find (matches crit) (db Events) of
            None \<Rightarrow> PrerequisiteMissingError
          | Some ev \<Rightarrow> NotFoundError),
    db)"
  by (simp add: transaction_def bindT_def where_first_def on_table_def assertT_def
      assert_def where_anyOf_delete_def split: option.splits)

text \<open>
  Claim C2, as the code has it. When the local events table has no event with the
  page's event key, the Team operation fails and returns the store it was given; the
  error is \<open>PrerequisiteMissingError\<close> whenever the fetch, which comes first, has
  succeeded.
\<close>

theorem team_sync_without_event:
  assumes "getKeys page = Inr (ek, ok)"
    and "\<not> list_ex (matches [(''key'', JStr ek)]) (db Events)"
  shows "(\<exists>e. TeamOperations_download srv page db = (Some e, db)) \<and>
         (fetch_array srv (''/api/'' @ ek @ ''/teams'') \<noteq> None \<longrightarrow>
            TeamOperations_download srv page db = (Some PrerequisiteMissingError, db))"
proof -
  have "find (matches [(''key'', JStr ek)]) (db Events) = None"
    using assms(2) by (simp add: find_None_iff list_ex_iff)
  then show ?thesis using assms(1)
    unfolding TeamOperations_download_def team_transaction
    by (auto split: option.splits)
qed

text \<open>The theorem on the empty store, with a server that returns two teams.\<close>

theorem team_sync_without_event_witness:
  "getKeys page_2024test = Inr (''2024test'', ''demo'') \<and>
   \<not> list_ex (matches [(''key'', JStr ''2024test'')]) (db_empty Events) \<and>
   fetch_array srv_teams (''/api/'' @ ''2024test'' @ ''/teams'') \<noteq> None \<and>
   TeamOperations_download srv_teams page_2024test db_empty = (Some PrerequisiteMissingError, db_empty)"
proof -
  have a: "\<not> list_ex (matches [(''key'', JStr ''2024test'')]) (db_empty Events)"
    by (simp add: db_empty_def)
  have b: "fetch_array srv_teams (''/api/'' @ ''2024test'' @ ''/teams'') \<noteq> None"
    by (simp add: srv_teams_def)
  show ?thesis
    using team_sync_without_event [where db = db_empty and srv = srv_teams, OF getKeys_2024test a]
      a b getKeys_2024test
    by simp
qed

text \<open>
  Claim C2 as stated fails: on the empty store with the server down, the Team operation
  fails with \<open>FetchError\<close>, not with \<open>PrerequisiteMissingError\<close>.
\<close>

theorem team_sync_fetch_error_first:
  "\<not> list_ex (matches [(''key'', JStr ''2024test'')]) (db_empty Events) \<and>
   TeamOperations_download srv_down page_2024test db_empty = (Some FetchError, db_empty)"
  by (simp add: TeamOperations_download_def getKeys_2024test srv_down_def db_empty_def)

text \<open>
  Claim C3 on its scenario: the event \<^verbatim>\<open>2024test\<close> is cached with the team keys
  \<^verbatim>\<open>frc1\<close> and \<^verbatim>\<open>frc2\<close> and their two rows, and the fetch returns \<^verbatim>\<open>frc1\<close> with new
  values and \<^verbatim>\<open>frc3\<close>. The delete on \<^verbatim>\<open>db.teams\<close> is rejected, since the transaction
  lists \<^verbatim>\<open>db.events\<close> only: the operation fails and the teams table still holds the old
  \<^verbatim>\<open>frc1\<close> and \<^verbatim>\<open>frc2\<close>.
\<close>

theorem team_sync_scenario_rejected:
  "TeamOperations_download srv_teams page_2024test db_cached = (Some NotFoundError, db_cached) \<and>
   db_cached Teams = [team_frc1_old, team_frc2]"
  unfolding TeamOperations_download_def team_transaction
  by (simp add: getKeys_2024test srv_teams_def db_cached_def matches_def event_2024test_def)

text \<open>
  For the same reason no Team operation succeeds: on every page, server and store it
  fails and returns the store it was given. A store left by a successful Team operation,
  of which the specification asks that a second run leave it alike, does not exist.
\<close>

lemma team_sync_never_succeeds:
  "fst (TeamOperations_download srv page db) \<noteq> None \<and>
   snd (TeamOperations_download srv page db) = db"
  unfolding TeamOperations_download_def team_transaction
  by (simp split: sum.splits option.splits prod.splits)


subsection \<open>Putting rows\<close>

lemma has_key_iff: "has_key path k t \<longleftrightarrow> Some k \<in> set (map (key_of path) t)"
  by (force simp: has_key_def list_ex_iff)

lemma filter_distinct_key:
  "distinct (map f xs) \<Longrightarrow> x \<in> set xs \<Longrightarrow> filter (\<lambda>y. f y = f x) xs = [x]"
proof (induction xs)
  case Nil
  then show ?case by simp
next
  case (Cons a xs)
  show ?case
  proof (cases "a = x")
    case True
    have "f x \<notin> f ` set xs" using Cons.prems(1) True by simp
    then have "\<forall>y\<in>set xs. f y \<noteq> f x" by (metis imageI)
    then have "filter (\<lambda>y. f y = f x) xs = []" by (simp add: filter_empty_conv)
    then show ?thesis using True by simp
  next
    case False
    then have "x \<in> set xs" using Cons.prems(2) by simp
    moreover have "f a \<noteq> f x" using Cons.prems(1) calculation by auto
    ultimately show ?thesis using Cons by simp
  qed
qed

lemma put_row_replace_keys:
  assumes "key_of (primary_key T) r = Some k"
  shows "map (key_of (primary_key T)) (map (\<lambda>x. if key_of (primary_key T) x = Some k then r else x) t)
         = map (key_of (primary_key T)) t"
  using assms by (induction t) auto

lemma put_row_result:
  assumes uk: "unique_keys T t"
    and k: "key_of (primary_key T) r = Some k"
    and put: "put_row T r t = Inr t'"
  shows "filter (\<lambda>x. key_of (primary_key T) x = Some k) t' = [r] \<and> unique_keys T t'"
proof (cases "has_key (primary_key T) k t")
  case True
  let ?pk = "key_of (primary_key T)"
  have t': "t' = map (\<lambda>x. if ?pk x = Some k then r else x) t"
    using put k True by (simp add: put_row_def split: if_splits)
  have keys: "map ?pk t' = map ?pk t"
    unfolding t' using k by (rule put_row_replace_keys)
  have d: "distinct (map ?pk t')" using uk keys by (simp add: unique_keys_def)
  have "r \<in> set t'" using True unfolding t' by (auto simp: has_key_def list_ex_iff)
  then have "filter (\<lambda>y. ?pk y = ?pk r) t' = [r]" using d by (rule filter_distinct_key[rotated])
  moreover have "list_all (\<lambda>x. ?pk x \<noteq> None) t'"
    using uk k unfolding t' by (auto simp: unique_keys_def list_all_iff)
  ultimately show ?thesis using d k by (simp add: unique_keys_def)
next
  case False
  let ?pk = "key_of (primary_key T)"
  have t': "t' = t @ [r]"
    using put k False by (simp add: put_row_def split: if_splits)
  have no: "Some k \<notin> set (map ?pk t)" using False by (simp add: has_key_iff)
  then have "filter (\<lambda>x. ?pk x = Some k) t = []" by (force simp: filter_empty_conv)
  then show ?thesis using uk k no unfolding t' by (auto simp: unique_keys_def)
qed

lemma status_key:
  "matches [(''table'', JStr a), (''filter'', JStr b)] =
   (\<lambda>x. key_of (primary_key Syncstatus) x = Some (JArr [JStr a, JStr b]))"
  by (rule ext) (auto simp: matches_def key_of_def split: option.splits list.splits if_splits)

lemma match_sync_store:
  assumes "MatchOperations_download srv page now db = (None, db')"
    and "getKeys page = Inr (ek, ok)"
  shows "put_row Syncstatus [(''table'', JStr ''lightmatches''), (''filter'', JStr (''event='' @ ek)),
                             (''time'', JDate now)] (db Syncstatus) = Inr (db' Syncstatus)"
  using assms
  by (auto simp: MatchOperations_download_def transaction_def bindT_def where_delete_def
      on_table_def table_bulkAdd_def table_put_def stored_def
      split: option.splits sum.splits prod.splits)

text \<open>
  Claim C7, as the code has it. On a store whose sync-status keys are unique, after a
  Match operation that has succeeded for the event key \<open>ek\<close> there is exactly one
  sync-status row for the table \<^verbatim>\<open>lightmatches\<close> and the filter \<^verbatim>\<open>event=ek\<close>; its time is
  the clock reading of this run; and the keys are unique again, so that the same holds
  after every further run. The time therefore grows from one run to the next exactly
  when the clock readings do.
\<close>

theorem match_sync_status_row:
  assumes "unique_keys Syncstatus (db Syncstatus)"
    and "getKeys page = Inr (ek, ok)"
    and "MatchOperations_download srv page now db = (None, db')"
  shows "status_rows ''lightmatches'' (''event='' @ ek) db' =
           [[(''table'', JStr ''lightmatches''), (''filter'', JStr (''event='' @ ek)),
             (''time'', JDate now)]] \<and>
         unique_keys Syncstatus (db' Syncstatus)"
proof -
  let ?r = "[(''table'', JStr ''lightmatches''), (''filter'', JStr (''event='' @ ek)), (''time'', JDate now)]"
  have k: "key_of (primary_key Syncstatus) ?r = Some (JArr [JStr ''lightmatches'', JStr (''event='' @ ek)])"
    by (simp add: key_of_def)
  have "put_row Syncstatus ?r (db Syncstatus) = Inr (db' Syncstatus)"
    using assms(3,2) by (rule match_sync_store)
  from put_row_result [OF assms(1) k this] show ?thesis
    unfolding status_rows_def status_key by simp
qed


text \<open>The Match operation on the example server, on the empty store and on the store it leaves.\<close>

lemmas store_unfold = transaction_def bindT_def on_table_def where_delete_def table_bulkAdd_def
  table_bulkPut_def table_put_def stored_def add_row_def put_row_def key_of_def has_key_def
  unique_conflict_def matches_def

lemma match_sync_first:
  "MatchOperations_download srv_matches page_2024test now db_empty =
     (None, db_empty(Lightmatches := [match_qm1], Syncstatus := [status_lightmatches now]))"
  by (simp add: MatchOperations_download_def getKeys_2024test srv_matches_def db_empty_def
      store_unfold match_qm1_def status_lightmatches_def)

lemma match_sync_again:
  "MatchOperations_download srv_matches page_2024test now
     (db_empty(Lightmatches := [match_qm1], Syncstatus := [status_lightmatches before])) =
     (None, db_empty(Lightmatches := [match_qm1], Syncstatus := [status_lightmatches now]))"
  by (simp add: MatchOperations_download_def getKeys_2024test srv_matches_def db_empty_def
      store_unfold match_qm1_def status_lightmatches_def)

text \<open>The theorem on the empty store, at the clock reading 1000.\<close>

theorem match_sync_status_row_witness:
  "unique_keys Syncstatus (db_empty Syncstatus) \<and>
   getKeys page_2024test = Inr (''2024test'', ''demo'') \<and>
   MatchOperations_download srv_matches page_2024test 1000 db_empty =
     (None, db_empty(Lightmatches := [match_qm1], Syncstatus := [status_lightmatches 1000])) \<and>
   status_rows ''lightmatches'' (''event='' @ ''2024test'')
     (db_empty(Lightmatches := [match_qm1], Syncstatus := [status_lightmatches 1000])) =
     [[(''table'', JStr ''lightmatches''), (''filter'', JStr (''event='' @ ''2024test'')),
       (''time'', JDate 1000)]]"
proof -
  have u: "unique_keys Syncstatus (db_empty Syncstatus)"
    by (simp add: unique_keys_def db_empty_def)
  show ?thesis
    using match_sync_status_row [OF u getKeys_2024test match_sync_first [of 1000]]
      u getKeys_2024test match_sync_first [of 1000]
    by simp
qed

text \<open>
  Claim C7 as stated fails where the clock does not advance: after a sync at the reading
  2000 and a second one at the reading 1000 (the clock was set back in between), both
  successful, the time of the row has gone from 2000 to 1000.
\<close>

theorem match_sync_clock_set_back:
  "MatchOperations_download srv_matches page_2024test 2000 db_empty =
     (None, db_empty(Lightmatches := [match_qm1], Syncstatus := [status_lightmatches 2000])) \<and>
   MatchOperations_download srv_matches page_2024test 1000
     (db_empty(Lightmatches := [match_qm1], Syncstatus := [status_lightmatches 2000])) =
     (None, db_empty(Lightmatches := [match_qm1], Syncstatus := [status_lightmatches 1000])) \<and>
   status_rows ''lightmatches'' ''event=2024test''
     (db_empty(Lightmatches := [match_qm1], Syncstatus := [status_lightmatches 2000])) =
     [status_lightmatches 2000] \<and>
   status_rows ''lightmatches'' ''event=2024test''
     (db_empty(Lightmatches := [match_qm1], Syncstatus := [status_lightmatches 1000])) =
     [status_lightmatches 1000]"
  using match_sync_first [of 2000] match_sync_again [of 1000 2000]
  by (simp add: status_rows_def matches_def status_lightmatches_def)

subsection \<open>The MatchScouting operation\<close>

lemma find_snoc:
  "find P (xs @ [y]) = (case find P xs of None \<Rightarrow> (if P y then Some y else None) | Some x \<Rightarrow> Some x)"
  by (induction xs) auto

lemma has_key_replace:
  assumes "key_of p r = Some k"
  shows "has_key p k' (map (\<lambda>x. if key_of p x = Some k then r else x) t) = has_key p k' t"
  using assms by (induction t) (auto simp: has_key_def)

lemma bulkPut_overlap:
  assumes "unique_indexes T = []"
    and "list_all (\<lambda>r. case key_of (primary_key T) r of None \<Rightarrow> False
                        | Some k \<Rightarrow> has_key (primary_key T) k t) rs"
  shows "bulkPut_rows T rs t = Inr (map (latest T rs) t)"
  using assms(2)
proof (induction rs arbitrary: t)
  case Nil
  then show ?case by (simp add: latest_def)
next
  case (Cons r rs)
  let ?pk = "key_of (primary_key T)"
  obtain k where k: "?pk r = Some k" and hk: "has_key (primary_key T) k t"
    using Cons.prems by (auto split: option.splits)
  let ?t1 = "map (\<lambda>x. if ?pk x = Some k then r else x) t"
  have put: "put_row T r t = Inr ?t1"
    using k hk assms(1) by (simp add: put_row_def unique_conflict_def)
  have "list_all (\<lambda>r. case ?pk r of None \<Rightarrow> False | Some k \<Rightarrow> has_key (primary_key T) k ?t1) rs"
    using Cons.prems by (simp add: has_key_replace [OF k] cong: option.case_cong)
  then have "bulkPut_rows T rs ?t1 = Inr (map (latest T rs) ?t1)" by (rule Cons.IH)
  moreover have "latest T rs (if ?pk x = Some k then r else x) = latest T (r # rs) x" for x
    using k by (auto simp: latest_def find_snoc split: option.splits)
  ultimately show ?case using put by (simp add: comp_def)
qed

text \<open>
  Claim C5, as the code has it. When every fetched assignment has the key of a row of
  the local matchscouting table, the operation succeeds, the table keeps its length,
  and each row is afterwards the last fetched record with its key, as a whole, or the
  row it was when no fetched record has its key.
\<close>

theorem matchscouting_sync_replaces_rows:
  assumes "getKeys page = Inr (ek, ok)"
    and "fetch_array srv (''/api/orgs/'' @ ok @ ''/'' @ ek @ ''/assignments/match'') = Some fetched"
    and "list_all (\<lambda>r. case key_of [''match_team_key''] r of None \<Rightarrow> False
                        | Some k \<Rightarrow> has_key [''match_team_key''] k (db Matchscouting)) fetched"
  shows "\<exists>db'. MatchScoutingOperations_download srv page now db = (None, db') \<and>
           db' Matchscouting = map (latest Matchscouting fetched) (db Matchscouting) \<and>
           length (db' Matchscouting) = length (db Matchscouting)"
proof -
  have "bulkPut_rows Matchscouting fetched (db Matchscouting) =
          Inr (map (latest Matchscouting fetched) (db Matchscouting))"
    using assms(3) bulkPut_overlap [where T = Matchscouting and rs = fetched and t = "db Matchscouting"]
    by (simp cong: option.case_cong)
  then show ?thesis using assms(1,2)
    by (simp add: MatchScoutingOperations_download_def transaction_def bindT_def on_table_def
        table_bulkPut_def table_put_def stored_def put_row_def key_of_def unique_conflict_def)
qed

text \<open>
  The theorem on a table with one assignment, whose fetched record has the same key.
\<close>

theorem matchscouting_sync_replaces_rows_witness:
  "getKeys page_2024test = Inr (''2024test'', ''demo'') \<and>
   fetch_array srv_assignments (''/api/orgs/'' @ ''demo'' @ ''/'' @ ''2024test'' @ ''/assignments/match'')
     = Some [ms_fetched] \<and>
   list_all (\<lambda>r. case key_of [''match_team_key''] r of None \<Rightarrow> False
                  | Some k \<Rightarrow> has_key [''match_team_key''] k (db_scouted Matchscouting)) [ms_fetched] \<and>
   (\<exists>db'. MatchScoutingOperations_download srv_assignments page_2024test 1000 db_scouted = (None, db') \<and>
      db' Matchscouting = map (latest Matchscouting [ms_fetched]) (db_scouted Matchscouting) \<and>
      length (db' Matchscouting) = length (db_scouted Matchscouting))"
proof -
  have f: "fetch_array srv_assignments (''/api/orgs/'' @ ''demo'' @ ''/'' @ ''2024test'' @ ''/assignments/match'')
             = Some [ms_fetched]"
    by (simp add: srv_assignments_def)
  have o: "list_all (\<lambda>r. case key_of [''match_team_key''] r of None \<Rightarrow> False
                  | Some k \<Rightarrow> has_key [''match_team_key''] k (db_scouted Matchscouting)) [ms_fetched]"
    by (simp add: key_of_def has_key_def ms_fetched_def ms_local_def db_scouted_def)
  show ?thesis
    using matchscouting_sync_replaces_rows
            [where db = db_scouted and now = 1000, OF getKeys_2024test f o] f o getKeys_2024test
    by simp
qed

text \<open>
  Claim C5 as stated fails: the local row has a field \<^verbatim>\<open>data\<close> that the fetched record
  with the same key lacks, and after the sync the table holds the fetched record alone,
  without that field. The row was replaced as a whole.
\<close>

theorem matchscouting_sync_drops_local_fields:
  "key_of [''match_team_key''] ms_local = key_of [''match_team_key''] ms_fetched \<and>
   map_of ms_local ''data'' = Some (JObj [(''notes'', JStr ''fast robot'')]) \<and>
   map_of ms_fetched ''data'' = None \<and>
   db_scouted Matchscouting = [ms_local] \<and>
   fst (MatchScoutingOperations_download srv_assignments page_2024test 1000 db_scouted) = None \<and>
   snd (MatchScoutingOperations_download srv_assignments page_2024test 1000 db_scouted) Matchscouting
     = [ms_fetched]"
  by (simp add: MatchScoutingOperations_download_def getKeys_2024test srv_assignments_def
      db_scouted_def store_unfold ms_local_def ms_fetched_def)

subsection \<open>The FormLayout operation\<close>













end
